theory Spec2Isabelle
  imports Complex_Main
begin

section \<open>Numbers and arrays\<close>

text \<open>
  The validator computes on numpy arrays of dtype float64. A finite float is
  idealised as a real number: rounding, overflow and the sign of zero are not
  modelled. The three special values of IEEE arithmetic are kept, because numpy
  does not raise on a float division by zero: it returns nan (for 0/0) or an
  infinity, and goes on.
\<close>

datatype npfloat = Fin real | PInf | NInf | NaN

fun np_add :: "npfloat \<Rightarrow> npfloat \<Rightarrow> npfloat" where
  "np_add (Fin a) (Fin b) = Fin (a + b)"
| "np_add NaN y = NaN"
| "np_add x NaN = NaN"
| "np_add PInf NInf = NaN"
| "np_add NInf PInf = NaN"
| "np_add PInf y = PInf"
| "np_add x PInf = PInf"
| "np_add NInf y = NInf"
| "np_add x NInf = NInf"

fun np_mul :: "npfloat \<Rightarrow> npfloat \<Rightarrow> npfloat" where
  "np_mul (Fin a) (Fin b) = Fin (a * b)"
| "np_mul NaN y = NaN"
| "np_mul x NaN = NaN"
| "np_mul (Fin a) PInf = (if a = 0 then NaN else if 0 < a then PInf else NInf)"
| "np_mul (Fin a) NInf = (if a = 0 then NaN else if 0 < a then NInf else PInf)"
| "np_mul PInf (Fin b) = (if b = 0 then NaN else if 0 < b then PInf else NInf)"
| "np_mul NInf (Fin b) = (if b = 0 then NaN else if 0 < b then NInf else PInf)"
| "np_mul PInf PInf = PInf"
| "np_mul PInf NInf = NInf"
| "np_mul NInf PInf = NInf"
| "np_mul NInf NInf = PInf"

fun np_div :: "npfloat \<Rightarrow> npfloat \<Rightarrow> npfloat" where
  "np_div (Fin a) (Fin b) =
     (if b = 0 then (if a = 0 then NaN else if 0 < a then PInf else NInf)
      else Fin (a / b))"
| "np_div NaN y = NaN"
| "np_div x NaN = NaN"
| "np_div (Fin a) PInf = Fin 0"
| "np_div (Fin a) NInf = Fin 0"
| "np_div PInf (Fin b) = (if 0 \<le> b then PInf else NInf)"
| "np_div NInf (Fin b) = (if 0 \<le> b then NInf else PInf)"
| "np_div PInf PInf = NaN"
| "np_div PInf NInf = NaN"
| "np_div NInf PInf = NaN"
| "np_div NInf NInf = NaN"

fun is_finite :: "npfloat \<Rightarrow> bool" where
  "is_finite (Fin a) = True"
| "is_finite x = False"

type_synonym vec = "npfloat list"
type_synonym mat = "npfloat list list"

text \<open>
  An array of at most two dimensions. A two-dimensional array is the list of its
  rows, all of one length; an array with no row has no column either.
\<close>

datatype ndarray = Scalar npfloat | A1 vec | A2 mat

datatype error =
  AssertionError | ValueError | IndexError | AttributeError | NotImplementedError

primrec np_sum :: "vec \<Rightarrow> npfloat" where
  "np_sum [] = Fin 0"
| "np_sum (x # xs) = np_add x (np_sum xs)"

definition ncols :: "mat \<Rightarrow> nat" where
  "ncols A = (case A of [] \<Rightarrow> 0 | r # rs \<Rightarrow> length r)"

text \<open>\<open>A[:, j]\<close>: IndexError when the array has no column \<open>j\<close>.\<close>

definition np_col :: "mat \<Rightarrow> nat \<Rightarrow> error + vec" where
  "np_col A j =
     (if j < ncols A \<and> list_all (\<lambda>r. j < length r) A
      then Inr (map (\<lambda>r. r ! j) A) else Inl IndexError)"

text \<open>\<open>a[idx]\<close> with an integer index array: a copy, IndexError out of range.\<close>

definition np_take :: "'a list \<Rightarrow> nat list \<Rightarrow> error + 'a list" where
  "np_take a idx =
     (if list_all (\<lambda>k. k < length a) idx then Inr (map (\<lambda>k. a ! k) idx)
      else Inl IndexError)"

fun nd_sum :: "ndarray \<Rightarrow> npfloat" where
  "nd_sum (Scalar x) = x"
| "nd_sum (A1 xs) = np_sum xs"
| "nd_sum (A2 rs) = np_sum (concat rs)"

fun nd_div :: "ndarray \<Rightarrow> npfloat \<Rightarrow> ndarray" where
  "nd_div (Scalar x) s = Scalar (np_div x s)"
| "nd_div (A1 xs) s = A1 (map (\<lambda>x. np_div x s) xs)"
| "nd_div (A2 rs) s = A2 (map (map (\<lambda>x. np_div x s)) rs)"

definition inner :: "vec \<Rightarrow> vec \<Rightarrow> npfloat" where
  "inner xs ys = np_sum (map2 np_mul xs ys)"

text \<open>
  \<open>np.dot\<close>: a product with a scalar, the inner product of two vectors, a
  matrix-vector, vector-matrix or matrix-matrix product; ValueError when the
  last axis of the first argument and the second-to-last axis of the second
  differ in length.
\<close>

fun np_dot :: "ndarray \<Rightarrow> ndarray \<Rightarrow> error + ndarray" where
  "np_dot (Scalar x) (Scalar y) = Inr (Scalar (np_mul x y))"
| "np_dot (Scalar x) (A1 ys) = Inr (A1 (map (np_mul x) ys))"
| "np_dot (Scalar x) (A2 rs) = Inr (A2 (map (map (np_mul x)) rs))"
| "np_dot (A1 xs) (Scalar y) = Inr (A1 (map (\<lambda>x. np_mul x y) xs))"
| "np_dot (A2 rs) (Scalar y) = Inr (A2 (map (map (\<lambda>x. np_mul x y)) rs))"
| "np_dot (A1 xs) (A1 ys) =
     (if length xs = length ys then Inr (Scalar (inner xs ys)) else Inl ValueError)"
| "np_dot (A2 rs) (A1 ys) =
     (if ncols rs = length ys then Inr (A1 (map (\<lambda>r. inner r ys) rs))
      else Inl ValueError)"
| "np_dot (A1 xs) (A2 rs) =
     (if length xs = length rs
      then Inr (A1 (map (\<lambda>j. inner xs (map (\<lambda>r. r ! j) rs)) [0..<ncols rs]))
      else Inl ValueError)"
| "np_dot (A2 ls) (A2 rs) =
     (if ncols ls = length rs
      then Inr (A2 (map (\<lambda>l. map (\<lambda>j. inner l (map (\<lambda>r. r ! j) rs)) [0..<ncols rs]) ls))
      else Inl ValueError)"

text \<open>
  Storing into one cell of a float array, \<open>a[i, j] = x\<close>: a scalar or an array
  of exactly one element is stored, anything else is "setting an array element
  with a sequence", a ValueError.
\<close>

fun as_scalar :: "ndarray \<Rightarrow> error + npfloat" where
  "as_scalar (Scalar x) = Inr x"
| "as_scalar (A1 [x]) = Inr x"
| "as_scalar (A2 [[x]]) = Inr x"
| "as_scalar a = Inl ValueError"

text \<open>\<open>np.eye(n)\<close>\<close>

definition eye :: "nat \<Rightarrow> mat" where
  "eye n = map (\<lambda>i. map (\<lambda>j. if i = j then Fin 1 else Fin 0) [0..<n]) [0..<n]"

text \<open>
  \<open>np.allclose(x, 1)\<close> with numpy's default tolerances, for one entry:
  \<open>|x - 1| \<le> atol + rtol * |1|\<close> with \<open>atol = 1e-8\<close>, \<open>rtol = 1e-5\<close>;
  false for nan and the infinities.
\<close>

fun close_to_one :: "npfloat \<Rightarrow> bool" where
  "close_to_one (Fin s) = (\<bar>s - 1\<bar> \<le> 1 / 10 ^ 8 + 1 / 10 ^ 5 * \<bar>1\<bar>)"
| "close_to_one x = False"

section \<open>Models\<close>

text \<open>
  The objects the validator is handed are duck-typed. A point model is read
  through \<open>n_states\<close>, \<open>stationary_distribution\<close>,
  \<open>count_model\<close> (which may be None) and its \<open>active_set\<close> (which may be
  None), \<open>propagate\<close> and \<open>pcca\<close>. State indices are natural numbers.
  \<open>propagate\<close> and \<open>pcca\<close> belong to the model and are not part of the
  validator: they are fields holding functions, \<open>propagate\<close> a pure function of
  the distribution and the number of steps.
\<close>

record count_model_t =
  active_set :: "nat list option"

record msm =
  msm_n_states :: nat
  stationary_distribution :: vec
  count_model :: "count_model_t option"
  propagate :: "ndarray \<Rightarrow> int \<Rightarrow> ndarray"
  pcca :: "nat \<Rightarrow> error + ndarray"

text \<open>
  Modelled from the spec: the class BayesianPosterior is not in the sources. The
  spec describes a model reference as either a point model or a posterior
  holding a \<open>prior\<close> point model and an ordered collection of \<open>samples\<close>;
  a posterior has no other attribute, so that reading \<open>n_states\<close> or
  \<open>pcca\<close> from it is an AttributeError, and \<open>hasattr(model, 'prior')\<close>
  holds exactly for it.
\<close>

datatype model_ref = PointModel msm | PosteriorModel msm "msm list"

text \<open>\<open>if hasattr(model, 'prior'): model = model.prior\<close>\<close>

fun resolve :: "model_ref \<Rightarrow> msm" where
  "resolve (PointModel m) = m"
| "resolve (PosteriorModel p ss) = p"

section \<open>The validator\<close>

text \<open>
  The attributes of a ChapmanKolmogorovValidator. \<open>test_model\<close> is None and
  \<open>P0\<close>, \<open>full2active\<close> are empty only inside the constructor, before
  the reference model is bound.
\<close>

record validator =
  memberships :: mat
  n_states :: nat
  nsets :: nat
  err_est :: bool
  conf :: real
  test_model :: "msm option"
  P0 :: mat
  full2active :: "nat list"

text \<open>
  Modelled from the spec: \<open>ensure_ndarray(value, ndim=2, dtype=np.float64)\<close> of
  sktime.util is not in the sources. Per the spec the membership matrix must be
  a two-dimensional numeric array and anything else is rejected; rows of
  different lengths do not form an array at all.
\<close>

fun ensure_ndarray2 :: "ndarray \<Rightarrow> error + mat" where
  "ensure_ndarray2 (A2 rs) =
     (if list_all (\<lambda>r. length r = ncols rs) rs then Inr rs else Inl ValueError)"
| "ensure_ndarray2 a = Inl ValueError"

text \<open>
  A setter that raises leaves the object as it is at that moment: the left
  result carries the exception together with the attributes already assigned.
\<close>

type_synonym 'a raised = "error \<times> 'a"

text \<open>
  The \<open>memberships\<close> setter. The shape is stored before the assertion that the
  rows sum to one is made.
\<close>

definition set_memberships :: "validator \<Rightarrow> ndarray \<Rightarrow> validator raised + validator" where
  "set_memberships v value =
     (case ensure_ndarray2 value of
        Inl e \<Rightarrow> Inl (e, v)
      | Inr M \<Rightarrow>
          (let v1 = v\<lparr>memberships := M, n_states := length M, nsets := ncols M\<rparr>
           in if list_all (\<lambda>r. close_to_one (np_sum r)) M then Inr v1
              else Inl (AssertionError, v1)))"

text \<open>
  \<open>memberships * pi[:, None]\<close>: the \<open>(r, c)\<close> matrix times the \<open>(p, 1)\<close>
  column. Broadcasting needs \<open>r = p\<close>, or one of the two equal to 1.
\<close>

definition mul_column :: "mat \<Rightarrow> vec \<Rightarrow> error + mat" where
  "mul_column M p =
     (if length M = length p then Inr (map2 (\<lambda>r x. map (\<lambda>y. np_mul y x) r) M p)
      else if length p = 1 then Inr (map (map (\<lambda>y. np_mul y (hd p))) M)
      else if length M = 1 then Inr (map (\<lambda>x. map (\<lambda>y. np_mul y x) (hd M)) p)
      else Inl ValueError)"

text \<open>\<open>A.sum(axis=0)\<close> and \<open>A /= A.sum(axis=0)\<close>\<close>

definition col_sums :: "mat \<Rightarrow> vec" where
  "col_sums A = map (\<lambda>j. np_sum (map (\<lambda>r. r ! j) A)) [0..<ncols A]"

definition column_normalize :: "mat \<Rightarrow> mat" where
  "column_normalize A = map (\<lambda>r. map2 np_div r (col_sums A)) A"

text \<open>
  \<open>t[idx] = vals\<close> with an integer index array and as many values: assigned in
  order, so that the last value wins at a repeated index.
\<close>

fun scatter :: "nat list \<Rightarrow> nat list \<Rightarrow> nat list \<Rightarrow> nat list" where
  "scatter t (k # ks) (x # xs) = scatter (t[k := x]) ks xs"
| "scatter t ks xs = t"

text \<open>
  \<open>self._full2active = np.zeros(np.max(active_set) + 1, dtype=int)\<close> followed by
  \<open>self._full2active[active_set] = np.arange(n)\<close>. \<open>np.max\<close> of an empty array
  is a ValueError; the assignment broadcasts \<open>arange(n)\<close> when \<open>n = 1\<close> and
  is a ValueError when the lengths differ otherwise.
\<close>

definition build_full2active :: "validator \<Rightarrow> nat list \<Rightarrow> nat \<Rightarrow> validator raised + validator" where
  "build_full2active v as n =
     (if as = [] then Inl (ValueError, v)
      else
        let v1 = v\<lparr>full2active := replicate (Max (set as) + 1) 0\<rparr>
        in if length as = n then Inr (v1\<lparr>full2active := scatter (full2active v1) as [0..<n]\<rparr>)
           else if n = 1 then Inr (v1\<lparr>full2active := scatter (full2active v1) as (replicate (length as) 0)\<rparr>)
           else Inl (ValueError, v1))"

text \<open>The \<open>test_model\<close> setter.\<close>

definition set_test_model :: "validator \<Rightarrow> model_ref \<Rightarrow> validator raised + validator" where
  "set_test_model v model =
     (let m = resolve model in
      if length (memberships v) \<noteq> msm_n_states m then Inl (AssertionError, v)
      else
        let v1 = v\<lparr>test_model := Some m\<rparr> in
        case mul_column (memberships v1) (stationary_distribution m) of
          Inl e \<Rightarrow> Inl (e, v1)
        | Inr W \<Rightarrow>
            (let v2 = v1\<lparr>P0 := column_normalize W\<rparr> in
             case count_model m of
               None \<Rightarrow> Inl (AttributeError, v2)
             | Some cm \<Rightarrow>
                 build_full2active v2
                   (case active_set cm of None \<Rightarrow> [0..<msm_n_states m] | Some as \<Rightarrow> as)
                   (msm_n_states m)))"

text \<open>
  Modelled from the spec: the base class LaggedModelValidator is not in the
  sources. Its constructor binds the reference model through the
  \<open>test_model\<close> setter and stores \<open>conf\<close>; the estimator and the lag multiples
  it also stores play no part in the observables. An exception in the
  constructor leaves no object behind.
\<close>

definition blank :: validator where
  "blank = \<lparr>memberships = [], n_states = 0, nsets = 0, err_est = False, conf = 0,
            test_model = None, P0 = [], full2active = []\<rparr>"

definition init_validator :: "model_ref \<Rightarrow> ndarray \<Rightarrow> real \<Rightarrow> bool \<Rightarrow> error + validator" where
  "init_validator model value c ee =
     (case set_memberships blank value of
        Inl (e, v) \<Rightarrow> Inl e
      | Inr v1 \<Rightarrow>
          (case set_test_model (v1\<lparr>err_est := ee\<rparr>) model of
             Inl (e, v) \<Rightarrow> Inl e
           | Inr v2 \<Rightarrow> Inr (v2\<lparr>conf := c\<rparr>)))"

section \<open>Observables\<close>

text \<open>
  The variable \<open>subset\<close> of the two prediction methods. It is None when the
  model has no count model. Otherwise it is \<open>self._full2active[active_set]\<close>:
  with an index array a one-dimensional array of remapped indices (IndexError
  for an index beyond the table), and with \<open>active_set = None\<close> the index
  \<open>None\<close> is numpy's \<open>newaxis\<close>, which gives the whole table as an array of
  shape \<open>(1, L)\<close>.
\<close>

datatype subset_ix = NoSubset | Sub1 "nat list" | Sub2 "nat list"

definition find_subset :: "validator \<Rightarrow> msm \<Rightarrow> error + subset_ix" where
  "find_subset v m =
     (case count_model m of
        None \<Rightarrow> Inr NoSubset
      | Some cm \<Rightarrow>
          (case active_set cm of
             None \<Rightarrow> Inr (Sub2 (full2active v))
           | Some as \<Rightarrow>
               (case np_take (full2active v) as of
                  Inl e \<Rightarrow> Inl e
                | Inr idx \<Rightarrow> Inr (Sub1 idx))))"

text \<open>
  \<open>p0 = self.P0[:, i]\<close> is a view of the stored matrix, and so is
  \<open>p0[None]\<close>; \<open>p0[subset]\<close> with an index array is a fresh copy. The array
  \<open>p0sub\<close> is therefore either a view of column \<open>i\<close> of \<open>P0\<close>, of shape
  \<open>(1, n)\<close>, or an array of its own.
\<close>

datatype p0ref = View nat | Copy ndarray

definition start_distribution :: "validator \<Rightarrow> subset_ix \<Rightarrow> nat \<Rightarrow> error + p0ref" where
  "start_distribution v sub i =
     (case np_col (P0 v) i of
        Inl e \<Rightarrow> Inl e
      | Inr p0 \<Rightarrow>
          (case sub of
             NoSubset \<Rightarrow> Inr (View i)
           | Sub1 idx \<Rightarrow>
               (case np_take p0 idx of Inl e \<Rightarrow> Inl e | Inr xs \<Rightarrow> Inr (Copy (A1 xs)))
           | Sub2 idx \<Rightarrow>
               (case np_take p0 idx of Inl e \<Rightarrow> Inl e | Inr xs \<Rightarrow> Inr (Copy (A2 [xs])))))"

definition deref :: "validator \<Rightarrow> p0ref \<Rightarrow> ndarray" where
  "deref v r = (case r of View i \<Rightarrow> A2 [map (\<lambda>row. row ! i) (P0 v)] | Copy a \<Rightarrow> a)"

text \<open>
  \<open>p0sub /= p0sub.sum()\<close> divides in place: through a view the quotient is
  written into column \<open>i\<close> of the validator's \<open>P0\<close>. The division itself never
  raises.
\<close>

definition write_col :: "mat \<Rightarrow> nat \<Rightarrow> vec \<Rightarrow> mat" where
  "write_col A i xs = map2 (\<lambda>row x. row[i := x]) A xs"

definition normalize_inplace :: "validator \<Rightarrow> p0ref \<Rightarrow> p0ref \<times> validator" where
  "normalize_inplace v r =
     (case r of
        Copy a \<Rightarrow> (Copy (nd_div a (nd_sum a)), v)
      | View i \<Rightarrow>
          (let p0 = map (\<lambda>row. row ! i) (P0 v)
           in (View i, v\<lparr>P0 := write_col (P0 v) i (map (\<lambda>x. np_div x (np_sum p0)) p0)\<rparr>)))"

text \<open>
  \<open>self.memberships[subset, j]\<close>. With an index array it holds the entries of
  column \<open>j\<close> at the rows of the subset. With \<open>subset = None\<close> the index is
  \<open>[newaxis, j]\<close>, so that \<open>j\<close> selects a row: the result is row \<open>j\<close> of the
  memberships, of shape \<open>(1, nsets)\<close>.
\<close>

definition memberships_at :: "validator \<Rightarrow> subset_ix \<Rightarrow> nat \<Rightarrow> error + ndarray" where
  "memberships_at v sub j =
     (case sub of
        NoSubset \<Rightarrow>
          (if j < length (memberships v) then Inr (A2 [memberships v ! j])
           else Inl IndexError)
      | Sub1 idx \<Rightarrow>
          (case np_take (memberships v) idx of
             Inl e \<Rightarrow> Inl e
           | Inr rows \<Rightarrow>
               (if j < ncols (memberships v) then Inr (A1 (map (\<lambda>r. r ! j) rows))
                else Inl IndexError))
      | Sub2 idx \<Rightarrow>
          (case np_take (memberships v) idx of
             Inl e \<Rightarrow> Inl e
           | Inr rows \<Rightarrow>
               (if j < ncols (memberships v) then Inr (A2 [map (\<lambda>r. r ! j) rows])
                else Inl IndexError)))"

text \<open>One cell: \<open>np.dot(pksub, self.memberships[subset, j])\<close>, as a float.\<close>

definition cell :: "validator \<Rightarrow> subset_ix \<Rightarrow> ndarray \<Rightarrow> nat \<Rightarrow> error + npfloat" where
  "cell v sub pksub j =
     (case memberships_at v sub j of
        Inl e \<Rightarrow> Inl e
      | Inr mj \<Rightarrow> (case np_dot pksub mj of Inl e \<Rightarrow> Inl e | Inr d \<Rightarrow> as_scalar d))"

text \<open>The loop \<open>for j in range(self.nsets)\<close> of \<open>_compute_observables\<close>.\<close>

fun project_sets :: "validator \<Rightarrow> subset_ix \<Rightarrow> ndarray \<Rightarrow> nat list \<Rightarrow> error + vec" where
  "project_sets v sub pksub [] = Inr []"
| "project_sets v sub pksub (j # js) =
     (case cell v sub pksub j of
        Inl e \<Rightarrow> Inl e
      | Inr x \<Rightarrow>
          (case project_sets v sub pksub js of
             Inl e \<Rightarrow> Inl e
           | Inr xs \<Rightarrow> Inr (x # xs)))"

text \<open>
  One pass of the loop \<open>for i in range(self.nsets)\<close>: the row \<open>i\<close> of the
  result, and the validator as the pass leaves it.
\<close>

definition observable_row ::
  "validator \<Rightarrow> msm \<Rightarrow> subset_ix \<Rightarrow> int \<Rightarrow> nat \<Rightarrow> (error + vec) \<times> validator" where
  "observable_row v m sub mlag i =
     (case start_distribution v sub i of
        Inl e \<Rightarrow> (Inl e, v)
      | Inr r \<Rightarrow>
          (let (r1, v1) = (if sub \<noteq> NoSubset then normalize_inplace v r else (r, v));
               pksub = propagate m (deref v1 r1) mlag
           in (project_sets v1 sub pksub [0..<nsets v1], v1)))"

fun observable_rows ::
  "validator \<Rightarrow> msm \<Rightarrow> subset_ix \<Rightarrow> int \<Rightarrow> nat list \<Rightarrow> (error + mat) \<times> validator" where
  "observable_rows v m sub mlag [] = (Inr [], v)"
| "observable_rows v m sub mlag (i # is) =
     (case observable_row v m sub mlag i of
        (Inl e, v1) \<Rightarrow> (Inl e, v1)
      | (Inr row, v1) \<Rightarrow>
          (case observable_rows v1 m sub mlag is of
             (Inl e, v2) \<Rightarrow> (Inl e, v2)
           | (Inr rows, v2) \<Rightarrow> (Inr (row # rows), v2)))"

text \<open>
  \<open>_compute_observables(model, mlag)\<close>: the matrix \<open>pk_on_set\<close>, or the
  exception raised, and the validator after the call.
\<close>

definition compute_observables ::
  "validator \<Rightarrow> model_ref \<Rightarrow> int \<Rightarrow> (error + mat) \<times> validator" where
  "compute_observables v model mlag =
     (let m = resolve model in
      case find_subset v m of
        Inl e \<Rightarrow> (Inl e, v)
      | Inr sub \<Rightarrow> observable_rows v m sub mlag [0..<nsets v])"

text \<open>
  \<open>_compute_observables_conf(model, mlag, conf)\<close>. The routine
  \<open>confidence_interval(samples, conf)\<close> of sktime.util is not in the sources
  and is a parameter \<open>ci\<close>: it takes the samples of one cell and a level and
  returns the two bounds. The model must have a \<open>prior\<close>; the division
  \<open>p0sub /= p0sub.sum()\<close> is made whatever the subset is.
\<close>

fun cell_samples :: "validator \<Rightarrow> subset_ix \<Rightarrow> ndarray list \<Rightarrow> nat \<Rightarrow> error + vec" where
  "cell_samples v sub [] j = Inr []"
| "cell_samples v sub (pksub # pks) j =
     (case cell v sub pksub j of
        Inl e \<Rightarrow> Inl e
      | Inr x \<Rightarrow>
          (case cell_samples v sub pks j of
             Inl e \<Rightarrow> Inl e
           | Inr xs \<Rightarrow> Inr (x # xs)))"

fun conf_cells ::
  "(vec \<Rightarrow> real \<Rightarrow> npfloat \<times> npfloat) \<Rightarrow> validator \<Rightarrow> subset_ix \<Rightarrow> ndarray list \<Rightarrow>
   nat list \<Rightarrow> error + (npfloat \<times> npfloat) list" where
  "conf_cells ci v sub pks [] = Inr []"
| "conf_cells ci v sub pks (j # js) =
     (case cell_samples v sub pks j of
        Inl e \<Rightarrow> Inl e
      | Inr pk_on_set_samples \<Rightarrow>
          (case conf_cells ci v sub pks js of
             Inl e \<Rightarrow> Inl e
           | Inr lrs \<Rightarrow> Inr (ci pk_on_set_samples (conf v) # lrs)))"

definition conf_row ::
  "(vec \<Rightarrow> real \<Rightarrow> npfloat \<times> npfloat) \<Rightarrow> validator \<Rightarrow> msm list \<Rightarrow> subset_ix \<Rightarrow> int \<Rightarrow>
   nat \<Rightarrow> (error + (npfloat \<times> npfloat) list) \<times> validator" where
  "conf_row ci v samples sub mlag i =
     (case start_distribution v sub i of
        Inl e \<Rightarrow> (Inl e, v)
      | Inr r \<Rightarrow>
          (let (r1, v1) = normalize_inplace v r;
               pksub_samples = map (\<lambda>m. propagate m (deref v1 r1) mlag) samples
           in (conf_cells ci v1 sub pksub_samples [0..<nsets v1], v1)))"

fun conf_rows ::
  "(vec \<Rightarrow> real \<Rightarrow> npfloat \<times> npfloat) \<Rightarrow> validator \<Rightarrow> msm list \<Rightarrow> subset_ix \<Rightarrow> int \<Rightarrow>
   nat list \<Rightarrow> (error + (npfloat \<times> npfloat) list list) \<times> validator" where
  "conf_rows ci v samples sub mlag [] = (Inr [], v)"
| "conf_rows ci v samples sub mlag (i # is) =
     (case conf_row ci v samples sub mlag i of
        (Inl e, v1) \<Rightarrow> (Inl e, v1)
      | (Inr row, v1) \<Rightarrow>
          (case conf_rows ci v1 samples sub mlag is of
             (Inl e, v2) \<Rightarrow> (Inl e, v2)
           | (Inr rows, v2) \<Rightarrow> (Inr (row # rows), v2)))"

definition compute_observables_conf ::
  "(vec \<Rightarrow> real \<Rightarrow> npfloat \<times> npfloat) \<Rightarrow> validator \<Rightarrow> model_ref \<Rightarrow> int \<Rightarrow> real \<Rightarrow>
   (error + mat \<times> mat) \<times> validator" where
  "compute_observables_conf ci v model mlag conf_arg =
     (case model of
        PointModel m \<Rightarrow> (Inl AttributeError, v)
      | PosteriorModel prior samples \<Rightarrow>
          (case find_subset v prior of
             Inl e \<Rightarrow> (Inl e, v)
           | Inr sub \<Rightarrow>
               (case conf_rows ci v samples sub mlag [0..<nsets v] of
                  (Inl e, v1) \<Rightarrow> (Inl e, v1)
                | (Inr rows, v1) \<Rightarrow> (Inr (map (map fst) rows, map (map snd) rows), v1))))"

section \<open>cktest\<close>

text \<open>
  The choice of the memberships in \<open>cktest\<close>: the \<open>try\<close> block catches
  NotImplementedError alone, any other exception passes through.
\<close>

definition cktest_memberships :: "model_ref \<Rightarrow> nat \<Rightarrow> ndarray option \<Rightarrow> error + ndarray" where
  "cktest_memberships model k ms =
     (case ms of
        Some M \<Rightarrow> Inr M
      | None \<Rightarrow>
          (case model of
             PosteriorModel prior samples \<Rightarrow> Inl AttributeError
           | PointModel m \<Rightarrow>
               (case pcca m k of
                  Inr M \<Rightarrow> Inr M
                | Inl e \<Rightarrow>
                    (if e = NotImplementedError then Inr (A2 (eye (msm_n_states m)))
                     else Inl e))))"

text \<open>
  \<open>cktest\<close> up to the constructed validator. The call \<open>ck.fit(dtrajs)\<close> that
  follows is the base class's loop over the lag multiples, which is not in the
  sources.
\<close>

definition cktest :: "model_ref \<Rightarrow> nat \<Rightarrow> ndarray option \<Rightarrow> real \<Rightarrow> bool \<Rightarrow> error + validator" where
  "cktest model k ms c ee =
     (case cktest_memberships model k ms of
        Inl e \<Rightarrow> Inl e
      | Inr M \<Rightarrow> init_validator model M c ee)"

section \<open>Concrete models and validators\<close>

text \<open>
  A model with identity dynamics: \<open>propagate\<close> returns the distribution it is
  given, whatever the number of steps; it has no metastable decomposition.
\<close>

definition identity_model :: "nat \<Rightarrow> vec \<Rightarrow> count_model_t option \<Rightarrow> msm" where
  "identity_model n p cm =
     \<lparr>msm_n_states = n, stationary_distribution = p, count_model = cm,
      propagate = (\<lambda>p k. p), pcca = (\<lambda>k. Inl NotImplementedError)\<rparr>"

definition active :: "nat list \<Rightarrow> count_model_t option" where
  "active as = Some \<lparr>active_set = Some as\<rparr>"

definition hard_partition :: mat where
  "hard_partition = [[Fin 1, Fin 0], [Fin 0, Fin 1]]"

text \<open>A validator as the constructor leaves it, with level 0.95 and no \<open>err_est\<close>.\<close>

definition bound_validator :: "mat \<Rightarrow> msm \<Rightarrow> mat \<Rightarrow> nat list \<Rightarrow> validator" where
  "bound_validator M m P f =
     \<lparr>memberships = M, n_states = length M, nsets = ncols M, err_est = False,
      conf = 19 / 20, test_model = Some m, P0 = P, full2active = f\<rparr>"

definition uniform2 :: vec where
  "uniform2 = [Fin (1 / 2), Fin (1 / 2)]"


text \<open>
  A stand-in for the confidence-interval routine that returns, as both bounds,
  the level it is called with.
\<close>

definition level_probe :: "vec \<Rightarrow> real \<Rightarrow> npfloat \<times> npfloat" where
  "level_probe samples level = (Fin level, Fin level)"

text \<open>
  The reals that float64 holds exactly: an integer of less than 54 bits times a
  power of two between \<open>2^-1074\<close> and \<open>2^971\<close>. An IEEE operation whose exact
  result is such a number returns it.
\<close>

definition int53 :: "real \<Rightarrow> bool" where
  "int53 y = (of_int \<lfloor>y\<rfloor> = y \<and> \<bar>y\<bar> < 2 ^ 53)"

definition float64 :: "real \<Rightarrow> bool" where
  "float64 x = (list_ex (\<lambda>b. int53 (x * 2 ^ b)) [0..<1075]
                \<or> list_ex (\<lambda>a. int53 (x / 2 ^ a)) [0..<972])"


section \<open>Facts about the arithmetic and the arrays\<close>

lemmas array_defs = ncols_def np_col_def np_take_def inner_def eye_def col_sums_def
  column_normalize_def mul_column_def write_col_def

lemmas setter_defs = set_memberships_def set_test_model_def build_full2active_def
  init_validator_def blank_def

lemmas predict_defs = find_subset_def start_distribution_def deref_def normalize_inplace_def
  memberships_at_def cell_def observable_row_def compute_observables_def

lemmas example_defs = identity_model_def active_def hard_partition_def bound_validator_def
  uniform2_def level_probe_def



lemma np_div_zero_not_finite: "\<not> is_finite (np_div x (Fin 0))"
  by (cases x) auto






section \<open>The initial distributions\<close>




lemma float64_excludes_underflow: "\<not> float64 (1 / 10 ^ 400)"
proof -
  have small: "\<not> int53 y" if "0 < y" "y < 1" for y
  proof -
    from that have "\<lfloor>y\<rfloor> = 0"
      by (simp add: floor_eq_iff)
    with that show ?thesis
      by (simp add: int53_def)
  qed
  have up: "\<not> int53 (1 / 10 ^ 400 * 2 ^ b)" if "b < 1075" for b :: nat
  proof -
    have "(2::real) ^ b \<le> 2 ^ 1074"
      using that by (intro power_increasing) simp_all
    also have "\<dots> < 10 ^ 400"
      by simp
    finally have "1 / 10 ^ 400 * 2 ^ b < (1::real)"
      by simp
    moreover have "0 < 1 / 10 ^ 400 * (2::real) ^ b"
      by simp
    ultimately show ?thesis
      by (rule small [rotated])
  qed
  have down: "\<not> int53 (1 / 10 ^ 400 / 2 ^ a)" for a :: nat
  proof -
    have "(1::real) \<le> 2 ^ a"
      by simp
    then have "1 / 10 ^ 400 / 2 ^ a \<le> 1 / 10 ^ 400 / (1::real)"
      by (intro divide_left_mono) simp_all
    also have "\<dots> < 1"
      by simp
    finally have "1 / 10 ^ 400 / 2 ^ a < (1::real)" .
    moreover have "0 < 1 / 10 ^ 400 / (2::real) ^ a"
      by simp
    ultimately show ?thesis
      by (rule small [rotated])
  qed
  from up down show ?thesis
    by (auto simp: float64_def list_ex_iff)
qed




section \<open>Facts about the setters\<close>

lemma length_scatter: "length (scatter t ks xs) = length t"
  by (induction t ks xs rule: scatter.induct) simp_all

lemma scatter_nth_other: "f \<notin> set ks \<Longrightarrow> scatter t ks xs ! f = t ! f"
  by (induction t ks xs rule: scatter.induct) simp_all

lemma ensure_ndarray2_Inr: "ensure_ndarray2 a = Inr M \<Longrightarrow> a = A2 M"
  by (cases a) (auto split: if_splits)

lemma set_memberships_Inr:
  assumes "set_memberships u a = Inr u'"
  shows "a = A2 (memberships u')"
    and "u' = u\<lparr>memberships := memberships u', n_states := length (memberships u'),
                nsets := ncols (memberships u')\<rparr>"
    and "list_all (\<lambda>r. close_to_one (np_sum r)) (memberships u')"
    and "n_states u' = length (memberships u')"
    and "nsets u' = ncols (memberships u')"
  using assms
  by (auto simp: set_memberships_def Let_def dest: ensure_ndarray2_Inr
           split: sum.splits if_splits)

lemma build_full2active_Inr:
  assumes "build_full2active u as n = Inr u'"
  shows "u' = u\<lparr>full2active := scatter (replicate (Max (set as) + 1) 0) as
                 (if length as = n then [0..<n] else replicate (length as) 0)\<rparr>"
    and "as \<noteq> []"
  using assms
  by (auto simp: build_full2active_def Let_def split: if_splits)

lemma set_test_model_Inr:
  assumes "set_test_model u model = Inr u'"
  obtains W cm where
    "length (memberships u) = msm_n_states (resolve model)"
    "mul_column (memberships u) (stationary_distribution (resolve model)) = Inr W"
    "count_model (resolve model) = Some cm"
    "u' = u\<lparr>test_model := Some (resolve model), P0 := column_normalize W,
            full2active :=
              scatter (replicate (Max (set (case active_set cm of
                          None \<Rightarrow> [0..<msm_n_states (resolve model)] | Some as \<Rightarrow> as)) + 1) 0)
                (case active_set cm of
                   None \<Rightarrow> [0..<msm_n_states (resolve model)] | Some as \<Rightarrow> as)
                (if length (case active_set cm of
                      None \<Rightarrow> [0..<msm_n_states (resolve model)] | Some as \<Rightarrow> as)
                    = msm_n_states (resolve model)
                 then [0..<msm_n_states (resolve model)]
                 else replicate (length (case active_set cm of
                      None \<Rightarrow> [0..<msm_n_states (resolve model)] | Some as \<Rightarrow> as)) 0)\<rparr>"
proof -
  from assms obtain W cm where
    n: "length (memberships u) = msm_n_states (resolve model)"
    and W: "mul_column (memberships u) (stationary_distribution (resolve model)) = Inr W"
    and cm: "count_model (resolve model) = Some cm"
    and b: "build_full2active (u\<lparr>test_model := Some (resolve model), P0 := column_normalize W\<rparr>)
              (case active_set cm of None \<Rightarrow> [0..<msm_n_states (resolve model)] | Some as \<Rightarrow> as)
              (msm_n_states (resolve model)) = Inr u'"
    by (auto simp: set_test_model_def Let_def split: if_splits sum.splits option.splits)
  from build_full2active_Inr(1) [OF b] n W cm that show thesis
    by simp
qed

lemma init_validator_Inr:
  assumes "init_validator model a c ee = Inr v"
  obtains u1 u2 where
    "set_memberships blank a = Inr u1"
    "set_test_model (u1\<lparr>err_est := ee\<rparr>) model = Inr u2"
    "v = u2\<lparr>conf := c\<rparr>"
  using assms
  by (auto simp: init_validator_def split: sum.splits prod.splits)

section \<open>Identity dynamics on a hard partition\<close>

text \<open>
  C1, as the specification states it, fails: the stationary distribution
  \<open>[1, 0]\<close> is stationary for the identity dynamics, it leaves the second set
  without mass, the second column of \<open>P0\<close> is nan, and the prediction of the
  bound model itself has a second row of nan.
\<close>

theorem identity_dynamics_counterexample:
  "init_validator (PointModel (identity_model 2 [Fin 1, Fin 0] (active [0, 1])))
       (A2 hard_partition) (19 / 20) False
     = Inr (bound_validator hard_partition (identity_model 2 [Fin 1, Fin 0] (active [0, 1]))
              [[Fin 1, NaN], [Fin 0, NaN]] [0, 1])
   \<and> fst (compute_observables
          (bound_validator hard_partition (identity_model 2 [Fin 1, Fin 0] (active [0, 1]))
             [[Fin 1, NaN], [Fin 0, NaN]] [0, 1])
          (PointModel (identity_model 2 [Fin 1, Fin 0] (active [0, 1]))) 1)
     = Inr [[Fin 1, Fin 0], [NaN, NaN]]"
  by (simp add: array_defs setter_defs predict_defs example_defs upt_rec)

text \<open>
  C1, amended: for memberships \<open>[[1, 0], [0, 1]]\<close> and a bound model with
  identity dynamics whose stationary distribution is finite and different from
  zero at both states and whose count model lists two distinct active states,
  the prediction for the bound model is the identity matrix at every lag
  multiple, and the validator is left as it was.
\<close>

theorem identity_dynamics_predicts_identity:
  assumes "init_validator (PointModel m) (A2 [[Fin 1, Fin 0], [Fin 0, Fin 1]]) c ee = Inr v"
    and "stationary_distribution m = [Fin a, Fin b]"
    and "a \<noteq> 0" and "b \<noteq> 0"
    and "count_model m = Some cm"
    and "active_set cm = Some [x, y]"
    and "x \<noteq> y"
    and "propagate m = (\<lambda>p k. p)"
  shows "compute_observables v (PointModel m) mlag
           = (Inr [[Fin 1, Fin 0], [Fin 0, Fin 1]], v)"
proof -
  define t where "t = replicate (Max (set [x, y]) + 1) (0::nat)"
  from assms(1) obtain u1 u2 where
    u1: "set_memberships blank (A2 [[Fin 1, Fin 0], [Fin 0, Fin 1]]) = Inr u1"
    and u2: "set_test_model (u1\<lparr>err_est := ee\<rparr>) (PointModel m) = Inr u2"
    and v: "v = u2\<lparr>conf := c\<rparr>"
    by (rule init_validator_Inr)
  from set_memberships_Inr(1) [OF u1]
  have M: "memberships u1 = [[Fin 1, Fin 0], [Fin 0, Fin 1]]"
    by simp
  from set_memberships_Inr(5) [OF u1] have s: "nsets u1 = 2"
    by (simp add: M ncols_def)
  from u2 obtain W cm' where
    n: "length (memberships (u1\<lparr>err_est := ee\<rparr>)) = msm_n_states (resolve (PointModel m))"
    and W: "mul_column (memberships (u1\<lparr>err_est := ee\<rparr>))
              (stationary_distribution (resolve (PointModel m))) = Inr W"
    and cm': "count_model (resolve (PointModel m)) = Some cm'"
    and u2eq: "u2 = (u1\<lparr>err_est := ee\<rparr>)\<lparr>test_model := Some (resolve (PointModel m)),
            P0 := column_normalize W,
            full2active :=
              scatter (replicate (Max (set (case active_set cm' of
                          None \<Rightarrow> [0..<msm_n_states (resolve (PointModel m))] | Some as \<Rightarrow> as)) + 1) 0)
                (case active_set cm' of
                   None \<Rightarrow> [0..<msm_n_states (resolve (PointModel m))] | Some as \<Rightarrow> as)
                (if length (case active_set cm' of
                      None \<Rightarrow> [0..<msm_n_states (resolve (PointModel m))] | Some as \<Rightarrow> as)
                    = msm_n_states (resolve (PointModel m))
                 then [0..<msm_n_states (resolve (PointModel m))]
                 else replicate (length (case active_set cm' of
                      None \<Rightarrow> [0..<msm_n_states (resolve (PointModel m))] | Some as \<Rightarrow> as)) 0)\<rparr>"
    by (rule set_test_model_Inr)
  have n2: "msm_n_states m = 2"
    using n M by simp
  have cm_eq: "cm' = cm"
    using cm' assms(5) by simp
  have Wv: "W = [[Fin a, Fin 0], [Fin 0, Fin b]]"
    using W M assms(2) by (simp add: mul_column_def)
  have P: "P0 v = [[Fin 1, Fin 0], [Fin 0, Fin 1]]"
    unfolding v u2eq Wv using assms(3,4)
    by (simp add: array_defs upt_rec)
  have F: "full2active v = t[x := 0, y := 1]"
    unfolding v u2eq cm_eq t_def using assms(6) n2
    by (simp add: upt_rec del: replicate_Suc)
  have Mv: "memberships v = [[Fin 1, Fin 0], [Fin 0, Fin 1]]" and sv: "nsets v = 2"
    unfolding v u2eq using M s by simp_all
  have len: "x < length t" "y < length t"
    by (simp_all add: t_def)
  have ix: "t[x := 0, y := 1] ! x = 0" "t[x := 0, y := 1] ! y = 1"
    using assms(7) len by (simp_all add: nth_list_update)
  have sub: "find_subset v m = Inr (Sub1 [0, 1])"
    using assms(5,6) F ix len by (simp add: find_subset_def np_take_def)
  have r0: "observable_row v m (Sub1 [0, 1]) mlag 0 = (Inr [Fin 1, Fin 0], v)"
    using P Mv sv assms(8)
    by (simp add: array_defs start_distribution_def normalize_inplace_def deref_def
        observable_row_def memberships_at_def cell_def upt_rec)
  have r1: "observable_row v m (Sub1 [0, 1]) mlag 1 = (Inr [Fin 0, Fin 1], v)"
    using P Mv sv assms(8)
    by (simp add: array_defs start_distribution_def normalize_inplace_def deref_def
        observable_row_def memberships_at_def cell_def upt_rec)
  have "observable_rows v m (Sub1 [0, 1]) mlag [0, 1]
          = (Inr [[Fin 1, Fin 0], [Fin 0, Fin 1]], v)"
    using r0 r1 by simp
  then show ?thesis
    using sub sv by (simp add: compute_observables_def upt_rec)
qed

theorem identity_dynamics_predicts_identity_witness:
  "compute_observables
     (bound_validator hard_partition (identity_model 2 uniform2 (active [0, 1]))
        hard_partition [0, 1])
     (PointModel (identity_model 2 uniform2 (active [0, 1]))) 7
   = (Inr [[Fin 1, Fin 0], [Fin 0, Fin 1]],
      bound_validator hard_partition (identity_model 2 uniform2 (active [0, 1]))
        hard_partition [0, 1])"
proof -
  let ?m = "identity_model 2 uniform2 (active [0, 1])"
  let ?v = "bound_validator hard_partition ?m hard_partition [0, 1]"
  have h1: "init_validator (PointModel ?m) (A2 [[Fin 1, Fin 0], [Fin 0, Fin 1]]) (19 / 20) False
              = Inr ?v"
    by (simp add: array_defs setter_defs example_defs upt_rec)
  have h2: "stationary_distribution ?m = [Fin (1 / 2), Fin (1 / 2)]"
    by (simp add: example_defs)
  have h3: "(1 / 2 :: real) \<noteq> 0"
    by simp
  have h5: "count_model ?m = Some \<lparr>active_set = Some [0, 1]\<rparr>"
    by (simp add: example_defs)
  have h6: "active_set \<lparr>active_set = Some [0, 1 :: nat]\<rparr> = Some [0, 1]"
    by simp
  have h7: "(0::nat) \<noteq> 1"
    by simp
  have h8: "propagate ?m = (\<lambda>p k. p)"
    by (simp add: example_defs)
  from identity_dynamics_predicts_identity [OF h1 h2 h3 h3 h5 h6 h7 h8, of 7]
  show ?thesis .
qed

section \<open>Subsets without mass\<close>

text \<open>
  C3, as the specification states it, fails: no error is raised. The validator
  is bound to a two-state model with both states active; the evaluated model
  has the first state alone in its active set. The second set has no mass on
  that subset, \<open>p0sub.sum()\<close> is 0, and the prediction returns a matrix whose
  second row is nan.
\<close>

theorem empty_subset_counterexample:
  "init_validator (PointModel (identity_model 2 uniform2 (active [0, 1])))
       (A2 hard_partition) (19 / 20) False
     = Inr (bound_validator hard_partition (identity_model 2 uniform2 (active [0, 1]))
              hard_partition [0, 1])
   \<and> np_take [Fin 0, Fin 1] [0] = Inr [Fin 0]
   \<and> np_sum [Fin 0] = Fin 0
   \<and> fst (compute_observables
          (bound_validator hard_partition (identity_model 2 uniform2 (active [0, 1]))
             hard_partition [0, 1])
          (PointModel (identity_model 1 [Fin 1] (active [0]))) 1)
     = Inr [[Fin 1, Fin 0], [NaN, NaN]]"
  by (simp add: array_defs setter_defs predict_defs example_defs upt_rec)

text \<open>
  C3, amended: when the column of a set, restricted to the active subset of the
  evaluated model, sums to zero, the pass for that set raises nothing at the
  normalisation: the division by zero is performed, every entry of the
  distribution handed to \<open>propagate\<close> is nan or infinite, and the row is
  whatever the projection of the propagated array gives.
\<close>

theorem zero_mass_is_divided_not_raised:
  assumes "np_col (P0 v) i = Inr p0"
    and "np_take p0 idx = Inr xs"
    and "np_sum xs = Fin 0"
  shows "observable_row v m (Sub1 idx) mlag i
           = (project_sets v (Sub1 idx)
                (propagate m (A1 (map (\<lambda>x. np_div x (Fin 0)) xs)) mlag) [0..<nsets v], v)
       \<and> list_all (\<lambda>x. \<not> is_finite x) (map (\<lambda>x. np_div x (Fin 0)) xs)"
  using assms
  by (simp add: observable_row_def start_distribution_def normalize_inplace_def deref_def
      list_all_iff np_div_zero_not_finite)

theorem zero_mass_is_divided_not_raised_witness:
  "observable_row
     (bound_validator hard_partition (identity_model 2 uniform2 (active [0, 1]))
        hard_partition [0, 1])
     (identity_model 1 [Fin 1] (active [0])) (Sub1 [0]) 1 1
   = (Inr [NaN, NaN],
      bound_validator hard_partition (identity_model 2 uniform2 (active [0, 1]))
        hard_partition [0, 1])
   \<and> list_all (\<lambda>x. \<not> is_finite x) [NaN]"
proof -
  let ?v = "bound_validator hard_partition (identity_model 2 uniform2 (active [0, 1]))
              hard_partition [0, 1]"
  have h1: "np_col (P0 ?v) 1 = Inr [Fin 0, Fin 1]"
    by (simp add: array_defs example_defs)
  have h2: "np_take [Fin 0, Fin 1] [0] = Inr [Fin 0]"
    by (simp add: array_defs)
  have h3: "np_sum [Fin 0] = Fin 0"
    by simp
  from zero_mass_is_divided_not_raised [OF h1 h2 h3, of "identity_model 1 [Fin 1] (active [0])" 1]
  show ?thesis
    by (simp add: array_defs memberships_at_def cell_def example_defs upt_rec)
qed

section \<open>Models without a count model\<close>

text \<open>
  C4: the code does not do what the claim says. With \<open>subset = None\<close> the two
  index expressions \<open>p0[subset]\<close> and \<open>self.memberships[subset, j]\<close> insert a
  new axis: the first is the column of \<open>P0\<close> as an array of shape \<open>(1, n)\<close>, the
  second is row \<open>j\<close> of the memberships, of shape \<open>(1, nsets)\<close>, not column
  \<open>j\<close>. For two states and two sets \<open>np.dot\<close> of the two raises a ValueError.
\<close>

theorem no_count_model_raises:
  "init_validator (PointModel (identity_model 2 uniform2 (active [0, 1])))
       (A2 hard_partition) (19 / 20) False
     = Inr (bound_validator hard_partition (identity_model 2 uniform2 (active [0, 1]))
              hard_partition [0, 1])
   \<and> compute_observables
     (bound_validator hard_partition (identity_model 2 uniform2 (active [0, 1]))
        hard_partition [0, 1])
     (PointModel (identity_model 2 uniform2 None)) 1
   = (Inl ValueError,
      bound_validator hard_partition (identity_model 2 uniform2 (active [0, 1]))
        hard_partition [0, 1])"
  by (simp add: array_defs setter_defs predict_defs example_defs upt_rec)

section \<open>Confidence intervals\<close>

lemma conf_argument_is_ignored:
  "compute_observables_conf ci v model mlag c1 = compute_observables_conf ci v model mlag c2"
  by (simp add: compute_observables_conf_def)

text \<open>
  C5: the code does not do what the claim says. The parameter \<open>conf\<close> of
  \<open>_compute_observables_conf\<close> is not used: the routine is called with
  \<open>self.conf\<close>. On a validator built with level 0.95 a call with level 0.5
  reduces every cell at level 0.95.
\<close>

theorem conf_level_is_the_validators:
  "init_validator (PointModel (identity_model 2 uniform2 (active [0, 1])))
       (A2 hard_partition) (19 / 20) False
     = Inr (bound_validator hard_partition (identity_model 2 uniform2 (active [0, 1]))
              hard_partition [0, 1])
   \<and> fst (compute_observables_conf level_probe
          (bound_validator hard_partition (identity_model 2 uniform2 (active [0, 1]))
             hard_partition [0, 1])
          (PosteriorModel (identity_model 2 uniform2 (active [0, 1]))
             [identity_model 2 uniform2 (active [0, 1])]) 1 (1 / 2))
     = Inr ([[Fin (19 / 20), Fin (19 / 20)], [Fin (19 / 20), Fin (19 / 20)]],
            [[Fin (19 / 20), Fin (19 / 20)], [Fin (19 / 20), Fin (19 / 20)]])"
  by (simp add: array_defs setter_defs predict_defs example_defs conf_row_def
      compute_observables_conf_def upt_rec)

section \<open>Rebinding the reference model\<close>

text \<open>
  C6, as the specification states it, fails: the setter stores the new model
  and the new \<open>P0\<close> before it reads the count model, so an assignment that
  raises there leaves the new model and the new \<open>P0\<close> next to the remap table
  of the previous model. Here the validator is bound to a model with active
  set \<open>[1, 3]\<close> and stationary distribution \<open>[1, 0]\<close>; assigning a model
  without a count model raises AttributeError; the validator then holds the new
  model, the new \<open>P0\<close> and the old table \<open>[0, 0, 0, 1]\<close>, and a prediction
  for a model with active set \<open>[0, 1]\<close> is made through that table.
\<close>

theorem failed_rebinding_keeps_table_counterexample:
  "init_validator (PointModel (identity_model 2 [Fin 1, Fin 0] (active [1, 3])))
       (A2 hard_partition) (19 / 20) False
     = Inr (bound_validator hard_partition (identity_model 2 [Fin 1, Fin 0] (active [1, 3]))
              [[Fin 1, NaN], [Fin 0, NaN]] [0, 0, 0, 1])
   \<and> set_test_model
       (bound_validator hard_partition (identity_model 2 [Fin 1, Fin 0] (active [1, 3]))
          [[Fin 1, NaN], [Fin 0, NaN]] [0, 0, 0, 1])
       (PointModel (identity_model 2 uniform2 None))
     = Inl (AttributeError,
            bound_validator hard_partition (identity_model 2 uniform2 None)
              hard_partition [0, 0, 0, 1])
   \<and> find_subset
       (bound_validator hard_partition (identity_model 2 uniform2 None)
          hard_partition [0, 0, 0, 1])
       (identity_model 2 uniform2 (active [0, 1]))
     = Inr (Sub1 [0, 0])
   \<and> fst (compute_observables
          (bound_validator hard_partition (identity_model 2 uniform2 None)
             hard_partition [0, 0, 0, 1])
          (PointModel (identity_model 2 uniform2 (active [0, 1]))) 1)
     = Inr [[Fin 1, Fin 0], [NaN, NaN]]"
  by (simp add: array_defs setter_defs predict_defs example_defs upt_rec eval_nat_numeral)

text \<open>
  C6, amended: an assignment of the reference model that returns leaves the
  validator in a state that does not depend on the model, the \<open>P0\<close> and the
  remap table it held before: all three are overwritten in the setter. A
  prediction made after such an assignment is therefore the same whatever they
  were.
\<close>

theorem rebinding_overwrites_P0_and_table:
  assumes "set_test_model v model = Inr v'"
  shows "set_test_model (v\<lparr>test_model := prev_model, P0 := prev_P, full2active := prev_table\<rparr>)
           model = Inr v'
       \<and> (case set_test_model
                 (v\<lparr>test_model := prev_model, P0 := prev_P, full2active := prev_table\<rparr>) model of
            Inl e \<Rightarrow> None
          | Inr w \<Rightarrow> Some (compute_observables w evaluated mlag))
         = Some (compute_observables v' evaluated mlag)"
proof -
  have "set_test_model (v\<lparr>test_model := prev_model, P0 := prev_P, full2active := prev_table\<rparr>)
          model = Inr v'"
    using assms
    by (auto simp: set_test_model_def build_full2active_def Let_def
             split: if_splits sum.splits option.splits)
  then show ?thesis
    by simp
qed

theorem rebinding_overwrites_P0_and_table_witness:
  "set_test_model
     (bound_validator hard_partition (identity_model 2 [Fin 1, Fin 0] (active [0, 1]))
        [[Fin 1, NaN], [Fin 0, NaN]] [0, 1])
     (PointModel (identity_model 2 uniform2 (active [1, 3])))
   = Inr (bound_validator hard_partition (identity_model 2 uniform2 (active [1, 3]))
            hard_partition [0, 0, 0, 1])"
proof -
  let ?new = "identity_model 2 uniform2 (active [1, 3])"
  let ?v = "bound_validator hard_partition ?new [] []"
  let ?v' = "bound_validator hard_partition ?new hard_partition [0, 0, 0, 1]"
  have h: "set_test_model ?v (PointModel ?new) = Inr ?v'"
    by (simp add: array_defs setter_defs example_defs upt_rec eval_nat_numeral)
  from rebinding_overwrites_P0_and_table [OF h,
      where prev_model = "Some (identity_model 2 [Fin 1, Fin 0] (active [0, 1]))"
        and prev_P = "[[Fin 1, NaN], [Fin 0, NaN]]" and prev_table = "[0, 1]"]
  show ?thesis
    by (simp add: example_defs)
qed

section \<open>The membership matrix\<close>

text \<open>
  C7: the constructor fails on a value that is not a two-dimensional array (a
  ValueError of \<open>ensure_ndarray\<close>) and on a matrix with a row whose sum is not
  1 within the tolerance of \<open>np.allclose\<close> (the AssertionError of the setter,
  or the ValueError when the rows do not even have one length); these are the
  errors the specification calls InvalidMembership. When the constructor
  succeeds, the value is the stored matrix, \<open>n_states\<close> is its number of rows
  and \<open>nsets\<close> its number of columns.
\<close>

theorem invalid_memberships_are_rejected:
  "((\<forall>M. a \<noteq> A2 M) \<longrightarrow> init_validator model a c ee = Inl ValueError)
   \<and> (a = A2 M \<and> \<not> list_all (\<lambda>r. close_to_one (np_sum r)) M \<longrightarrow>
        init_validator model a c ee
          = Inl (if list_all (\<lambda>r. length r = ncols M) M then AssertionError else ValueError))
   \<and> (init_validator model a c ee = Inr v \<longrightarrow>
        a = A2 (memberships v) \<and> n_states v = length (memberships v)
        \<and> nsets v = ncols (memberships v)
        \<and> list_all (\<lambda>r. close_to_one (np_sum r)) (memberships v))"
proof -
  have not_2d: "init_validator model a c ee = Inl ValueError" if "\<forall>M. a \<noteq> A2 M"
    using that by (cases a) (simp_all add: init_validator_def set_memberships_def)
  have not_stochastic: "init_validator model a c ee
          = Inl (if list_all (\<lambda>r. length r = ncols M) M then AssertionError else ValueError)"
    if "a = A2 M \<and> \<not> list_all (\<lambda>r. close_to_one (np_sum r)) M"
    using that by (simp add: init_validator_def set_memberships_def)
  have accepted: "a = A2 (memberships v) \<and> n_states v = length (memberships v)
        \<and> nsets v = ncols (memberships v)
        \<and> list_all (\<lambda>r. close_to_one (np_sum r)) (memberships v)"
    if ok: "init_validator model a c ee = Inr v"
  proof -
    from ok obtain u1 u2 where
      u1: "set_memberships blank a = Inr u1"
      and u2: "set_test_model (u1\<lparr>err_est := ee\<rparr>) model = Inr u2"
      and v: "v = u2\<lparr>conf := c\<rparr>"
      by (rule init_validator_Inr)
    from u2 have same: "memberships u2 = memberships u1" "n_states u2 = n_states u1"
      "nsets u2 = nsets u1"
      by (auto elim!: set_test_model_Inr)
    from set_memberships_Inr(1,3,4,5) [OF u1] same v show ?thesis
      by simp
  qed
  from not_2d not_stochastic accepted show ?thesis
    by blast
qed

theorem invalid_memberships_are_rejected_witness:
  "init_validator (PointModel (identity_model 2 uniform2 (active [0, 1])))
       (A1 [Fin 1, Fin 0]) (19 / 20) False = Inl ValueError
   \<and> init_validator (PointModel (identity_model 2 uniform2 (active [0, 1])))
       (A2 [[Fin 1, Fin 0], [Fin (1 / 2), Fin (1 / 4)]]) (19 / 20) False = Inl AssertionError
   \<and> n_states (bound_validator hard_partition (identity_model 2 uniform2 (active [0, 1]))
                 hard_partition [0, 1]) = 2
   \<and> nsets (bound_validator hard_partition (identity_model 2 uniform2 (active [0, 1]))
                 hard_partition [0, 1]) = 2"
proof -
  let ?m = "PointModel (identity_model 2 uniform2 (active [0, 1]))"
  let ?v = "bound_validator hard_partition (identity_model 2 uniform2 (active [0, 1]))
              hard_partition [0, 1]"
  have h1: "\<forall>M. A1 [Fin 1, Fin 0] \<noteq> A2 M"
    by simp
  have h2: "A2 [[Fin 1, Fin 0], [Fin (1 / 2), Fin (1 / 4)]]
              = A2 [[Fin 1, Fin 0], [Fin (1 / 2), Fin (1 / 4)]]
            \<and> \<not> list_all (\<lambda>r. close_to_one (np_sum r)) [[Fin 1, Fin 0], [Fin (1 / 2), Fin (1 / 4)]]"
    by simp
  have h3: "init_validator ?m (A2 hard_partition) (19 / 20) False = Inr ?v"
    by (simp add: array_defs setter_defs example_defs upt_rec)
  from invalid_memberships_are_rejected [of "A1 [Fin 1, Fin 0]" ?m "19 / 20" False] h1
  have w1: "init_validator ?m (A1 [Fin 1, Fin 0]) (19 / 20) False = Inl ValueError"
    by blast
  from invalid_memberships_are_rejected
    [of "A2 [[Fin 1, Fin 0], [Fin (1 / 2), Fin (1 / 4)]]" ?m "19 / 20" False
        "[[Fin 1, Fin 0], [Fin (1 / 2), Fin (1 / 4)]]"] h2
  have w2: "init_validator ?m (A2 [[Fin 1, Fin 0], [Fin (1 / 2), Fin (1 / 4)]]) (19 / 20) False
              = Inl AssertionError"
    by (simp add: ncols_def)
  from invalid_memberships_are_rejected [of "A2 hard_partition" ?m "19 / 20" False _ ?v] h3
  have w3: "n_states ?v = length (memberships ?v) \<and> nsets ?v = ncols (memberships ?v)"
    by blast
  from w1 w2 w3 show ?thesis
    by (simp add: example_defs ncols_def)
qed

section \<open>Prediction does not change the validator\<close>

lemma start_distribution_Sub1:
  "start_distribution v (Sub1 idx) i = Inr r \<Longrightarrow> \<exists>a. r = Copy a"
  by (auto simp: start_distribution_def split: sum.splits)

lemma start_distribution_Sub2:
  "start_distribution v (Sub2 idx) i = Inr r \<Longrightarrow> \<exists>a. r = Copy a"
  by (auto simp: start_distribution_def split: sum.splits)

lemma normalize_inplace_Copy: "snd (normalize_inplace v (Copy a)) = v"
  by (simp add: normalize_inplace_def)

lemma observable_row_state: "snd (observable_row v m sub mlag i) = v"
proof (cases "start_distribution v sub i")
  case (Inl e)
  then show ?thesis
    by (simp add: observable_row_def)
next
  case (Inr r)
  show ?thesis
  proof (cases sub)
    case NoSubset
    with Inr show ?thesis
      by (simp add: observable_row_def)
  next
    case (Sub1 idx)
    with Inr obtain a where "r = Copy a"
      by (auto dest: start_distribution_Sub1)
    with Inr Sub1 show ?thesis
      by (simp add: observable_row_def normalize_inplace_def)
  next
    case (Sub2 idx)
    with Inr obtain a where "r = Copy a"
      by (auto dest: start_distribution_Sub2)
    with Inr Sub2 show ?thesis
      by (simp add: observable_row_def normalize_inplace_def)
  qed
qed

lemma observable_rows_state: "snd (observable_rows v m sub mlag is) = v"
proof (induction "is" arbitrary: v)
  case Nil
  then show ?case by simp
next
  case (Cons i "is")
  obtain res v1 where r: "observable_row v m sub mlag i = (res, v1)"
    by (cases "observable_row v m sub mlag i")
  with observable_row_state [of v m sub mlag i] have v1: "v1 = v"
    by simp
  obtain res2 v2 where r2: "observable_rows v m sub mlag is = (res2, v2)"
    by (cases "observable_rows v m sub mlag is")
  with Cons.IH [of v] have v2: "v2 = v"
    by simp
  from r r2 v1 v2 show ?case
    by (cases res; cases res2) simp_all
qed

text \<open>
  C8: \<open>_compute_observables\<close> returns the validator as it found it, since the
  only in-place operation, \<open>p0sub /= p0sub.sum()\<close>, is made when \<open>p0sub\<close> is a
  copy and never when it is a view of \<open>P0\<close>. A second call with the same
  arguments therefore starts from the same state and gives the same result.
\<close>

theorem predict_is_repeatable:
  "snd (compute_observables v model mlag) = v
   \<and> compute_observables (snd (compute_observables v model mlag)) model mlag
       = compute_observables v model mlag"
proof -
  have "snd (compute_observables v model mlag) = v"
    by (cases "find_subset v (resolve model)")
       (simp_all add: compute_observables_def observable_rows_state)
  then show ?thesis
    by simp
qed

theorem predict_is_repeatable_witness:
  "snd (compute_observables
     (bound_validator hard_partition (identity_model 2 uniform2 (active [0, 1]))
        hard_partition [0, 1])
     (PointModel (identity_model 1 [Fin 1] (active [0]))) 3)
   = bound_validator hard_partition (identity_model 2 uniform2 (active [0, 1]))
       hard_partition [0, 1]"
  using predict_is_repeatable
    [of "bound_validator hard_partition (identity_model 2 uniform2 (active [0, 1]))
           hard_partition [0, 1]"
        "PointModel (identity_model 1 [Fin 1] (active [0]))" 3]
  by blast

section \<open>The fallback of cktest\<close>

text \<open>
  C9: when no memberships are given and \<open>pcca\<close> raises NotImplementedError,
  \<open>cktest\<close> takes the identity matrix of size \<open>n_states\<close> as memberships and
  constructs the validator with it.
\<close>

theorem cktest_falls_back_to_identity:
  assumes "pcca m k = Inl NotImplementedError"
  shows "cktest_memberships (PointModel m) k None = Inr (A2 (eye (msm_n_states m)))
       \<and> cktest (PointModel m) k None c ee
           = init_validator (PointModel m) (A2 (eye (msm_n_states m))) c ee"
  using assms by (simp add: cktest_def cktest_memberships_def)

theorem cktest_falls_back_to_identity_witness:
  "cktest (PointModel (identity_model 2 uniform2 (active [0, 1]))) 2 None (19 / 20) False
   = Inr (bound_validator [[Fin 1, Fin 0], [Fin 0, Fin 1]]
            (identity_model 2 uniform2 (active [0, 1]))
            [[Fin 1, Fin 0], [Fin 0, Fin 1]] [0, 1])"
proof -
  let ?m = "identity_model 2 uniform2 (active [0, 1])"
  have h: "pcca ?m 2 = Inl NotImplementedError"
    by (simp add: example_defs)
  have e: "eye 2 = [[Fin 1, Fin 0], [Fin 0, Fin 1]]"
    by (simp add: eye_def upt_rec)
  have n: "msm_n_states ?m = 2"
    by (simp add: example_defs)
  have i: "init_validator (PointModel ?m) (A2 [[Fin 1, Fin 0], [Fin 0, Fin 1]]) (19 / 20) False
             = Inr (bound_validator [[Fin 1, Fin 0], [Fin 0, Fin 1]] ?m
                      [[Fin 1, Fin 0], [Fin 0, Fin 1]] [0, 1])"
    by (simp add: array_defs setter_defs example_defs upt_rec)
  from cktest_falls_back_to_identity [OF h, of "19 / 20" False] show ?thesis
    by (simp only: n e i)
qed

section \<open>Indices outside the reference's active set\<close>

lemma set_test_model_full2active:
  assumes "set_test_model v model = Inr v'"
    and "count_model (resolve model) = Some cm"
    and "active_set cm = Some A"
  shows "\<exists>xs. full2active v' = scatter (replicate (Max (set A) + 1) 0) A xs"
proof -
  from assms(1) obtain W cm' where
    "count_model (resolve model) = Some cm'"
    "v' = v\<lparr>test_model := Some (resolve model), P0 := column_normalize W,
            full2active :=
              scatter (replicate (Max (set (case active_set cm' of
                          None \<Rightarrow> [0..<msm_n_states (resolve model)] | Some as \<Rightarrow> as)) + 1) 0)
                (case active_set cm' of
                   None \<Rightarrow> [0..<msm_n_states (resolve model)] | Some as \<Rightarrow> as)
                (if length (case active_set cm' of
                      None \<Rightarrow> [0..<msm_n_states (resolve model)] | Some as \<Rightarrow> as)
                    = msm_n_states (resolve model)
                 then [0..<msm_n_states (resolve model)]
                 else replicate (length (case active_set cm' of
                      None \<Rightarrow> [0..<msm_n_states (resolve model)] | Some as \<Rightarrow> as)) 0)\<rparr>"
    by (rule set_test_model_Inr)
  with assms(2,3) show ?thesis
    by auto
qed

text \<open>
  C10: after a reference model with active set \<open>A\<close> is bound, the remap table
  holds 0 at every index \<open>f \<le> max(A)\<close> that is not in \<open>A\<close>. A model whose
  active set \<open>B\<close> contains such an \<open>f\<close> (and stays within the table) gets a
  subset without any error, in which \<open>f\<close> stands for the reference's active
  index 0.
\<close>

theorem inactive_index_is_remapped_to_zero:
  assumes "set_test_model v model = Inr v'"
    and "count_model (resolve model) = Some cm"
    and "active_set cm = Some A"
    and "f \<le> Max (set A)"
    and "f \<notin> set A"
    and "count_model m = Some cm2"
    and "active_set cm2 = Some B"
    and "list_all (\<lambda>g. g \<le> Max (set A)) B"
    and "k < length B"
    and "B ! k = f"
  shows "f < length (full2active v') \<and> full2active v' ! f = 0
       \<and> find_subset v' m = Inr (Sub1 (map (\<lambda>g. full2active v' ! g) B))
       \<and> map (\<lambda>g. full2active v' ! g) B ! k = 0"
proof -
  from set_test_model_full2active [OF assms(1-3)] obtain xs where
    t: "full2active v' = scatter (replicate (Max (set A) + 1) 0) A xs"
    by blast
  have len: "length (full2active v') = Max (set A) + 1"
    by (simp add: t length_scatter)
  have f: "f < length (full2active v')"
    using assms(4) len by simp
  have r: "replicate (Max (set A) + 1) (0::nat) ! f = 0"
    using assms(4) by (intro nth_replicate) simp
  have z: "full2active v' ! f = 0"
    unfolding t scatter_nth_other [OF assms(5)] by (rule r)
  have "list_all (\<lambda>g. g < length (full2active v')) B"
    using assms(8) len by (simp add: list_all_iff less_Suc_eq_le)
  then have s: "find_subset v' m = Inr (Sub1 (map (\<lambda>g. full2active v' ! g) B))"
    using assms(6,7) by (simp add: find_subset_def np_take_def)
  from f z s assms(9,10) show ?thesis
    by simp
qed

theorem inactive_index_is_remapped_to_zero_witness:
  "full2active (bound_validator hard_partition (identity_model 2 uniform2 (active [1, 3]))
      hard_partition [0, 0, 0, 1]) ! 2 = 0
   \<and> find_subset
       (bound_validator hard_partition (identity_model 2 uniform2 (active [1, 3]))
          hard_partition [0, 0, 0, 1])
       (identity_model 2 uniform2 (active [2, 3]))
     = Inr (Sub1 [0, 1])"
proof -
  let ?ref = "identity_model 2 uniform2 (active [1, 3])"
  let ?v = "bound_validator hard_partition ?ref [] []"
  let ?v' = "bound_validator hard_partition ?ref hard_partition [0, 0, 0, 1]"
  let ?m = "identity_model 2 uniform2 (active [2, 3])"
  have h1: "set_test_model ?v (PointModel ?ref) = Inr ?v'"
    by (simp add: array_defs setter_defs example_defs upt_rec eval_nat_numeral)
  have h2: "count_model (resolve (PointModel ?ref)) = Some \<lparr>active_set = Some [1, 3]\<rparr>"
    by (simp add: example_defs)
  have h3: "active_set \<lparr>active_set = Some [1, 3 :: nat]\<rparr> = Some [1, 3]"
    by simp
  have h4: "(2::nat) \<le> Max (set [1, 3])"
    by simp
  have h5: "(2::nat) \<notin> set [1, 3]"
    by simp
  have h6: "count_model ?m = Some \<lparr>active_set = Some [2, 3]\<rparr>"
    by (simp add: example_defs)
  have h7: "active_set \<lparr>active_set = Some [2, 3 :: nat]\<rparr> = Some [2, 3]"
    by simp
  have h8: "list_all (\<lambda>g. g \<le> Max (set [1, 3 :: nat])) [2, 3]"
    by simp
  have h9: "(0::nat) < length [2, 3 :: nat]"
    by simp
  have h10: "[2, 3 :: nat] ! 0 = 2"
    by simp
  from inactive_index_is_remapped_to_zero [OF h1 h2 h3 h4 h5 h6 h7 h8 h9 h10]
  show ?thesis
    by (simp add: example_defs eval_nat_numeral)
qed

end
